theory Spec2Isabelle
  imports Complex_Main "HOL-Library.Sublist" "HOL-Library.Multiset"
begin

section \<open>Python values and exceptions\<close>

text \<open>
  The SDK works on the result of \<^verbatim>\<open>json.load\<close> / \<^verbatim>\<open>response.json()\<close>: nested Python
  dictionaries, lists, strings, numbers, booleans and \<^verbatim>\<open>None\<close>. A dictionary keeps its
  insertion order, so it is an association list; a Python dictionary never holds a key
  twice, which the theorems state as \<open>distinct (map fst kvs)\<close> where it matters.
  Numbers are reals: the rounding of floating point arithmetic is not modelled.
  \<^verbatim>\<open>None\<close> and JSON's \<^verbatim>\<open>null\<close> are the same value, \<open>JNull\<close>.
\<close>

datatype json =
    JNull
  | JBool bool
  | JNum real
  | JStr string
  | JArr "json list"
  | JObj "(string \<times> json) list"

text \<open>Every \<^verbatim>\<open>raise\<close> of the source and of the interpreter is a value of this type.\<close>

datatype py_error =
    KeyError string
  | TypeError
  | AttributeError
  | ValueError
  | ZeroDivisionError
  | IndexError
  | JSONDecodeError
  | UnicodeDecodeError
  | RecursionError
  | FileNotFoundError
  | PermissionError
  | HTTPError
  | Timeout
  | OtherError

text \<open>\<^verbatim>\<open>obj[key]\<close> with a string key: only a dictionary can be subscripted by a string.\<close>

definition getitem :: "json \<Rightarrow> string \<Rightarrow> py_error + json" where
  "getitem obj k =
     (case obj of
        JObj kvs \<Rightarrow> (case map_of kvs k of None \<Rightarrow> Inl (KeyError k) | Some v \<Rightarrow> Inr v)
      | _ \<Rightarrow> Inl TypeError)"

text \<open>\<^verbatim>\<open>sub in s\<close> on strings: substring test.\<close>

fun is_substring :: "string \<Rightarrow> string \<Rightarrow> bool" where
  "is_substring sub [] = (sub = [])"
| "is_substring sub (c # s) = (prefix sub (c # s) \<or> is_substring sub s)"

text \<open>
  \<^verbatim>\<open>key in obj\<close> with a string key: key membership for a dictionary, element membership
  for a list, substring test for a string, \<^verbatim>\<open>TypeError\<close> for \<^verbatim>\<open>None\<close>, numbers and booleans.
\<close>

definition contains :: "json \<Rightarrow> string \<Rightarrow> py_error + bool" where
  "contains obj k =
     (case obj of
        JObj kvs \<Rightarrow> Inr (k \<in> set (map fst kvs))
      | JArr xs \<Rightarrow> Inr (JStr k \<in> set xs)
      | JStr s \<Rightarrow> Inr (is_substring k s)
      | _ \<Rightarrow> Inl TypeError)"

text \<open>\<^verbatim>\<open>list(obj.keys())\<close> and \<^verbatim>\<open>obj.items()\<close>: only a dictionary has these methods.\<close>

definition dict_keys :: "json \<Rightarrow> py_error + string list" where
  "dict_keys obj = (case obj of JObj kvs \<Rightarrow> Inr (map fst kvs) | _ \<Rightarrow> Inl AttributeError)"

definition dict_items :: "json \<Rightarrow> py_error + (string \<times> json) list" where
  "dict_items obj = (case obj of JObj kvs \<Rightarrow> Inr kvs | _ \<Rightarrow> Inl AttributeError)"

text \<open>Truth value of a Python object, as \<^verbatim>\<open>if obj:\<close> tests it.\<close>

definition truthy :: "json \<Rightarrow> bool" where
  "truthy obj =
     (case obj of
        JNull \<Rightarrow> False
      | JBool b \<Rightarrow> b
      | JNum r \<Rightarrow> r \<noteq> 0
      | JStr s \<Rightarrow> s \<noteq> []
      | JArr xs \<Rightarrow> xs \<noteq> []
      | JObj kvs \<Rightarrow> kvs \<noteq> [])"

text \<open>The numeric value of an object in arithmetic; \<^verbatim>\<open>True\<close> counts as 1.\<close>

definition num_of :: "json \<Rightarrow> real option" where
  "num_of obj =
     (case obj of
        JNum r \<Rightarrow> Some r
      | JBool b \<Rightarrow> Some (if b then 1 else 0)
      | _ \<Rightarrow> None)"

text \<open>
  Dictionary keys: lists and dictionaries are unhashable; among hashable values numbers
  and booleans compare by value (\<^verbatim>\<open>True == 1\<close>), everything else structurally.
\<close>

definition hashable :: "json \<Rightarrow> bool" where
  "hashable obj = (case obj of JArr _ \<Rightarrow> False | JObj _ \<Rightarrow> False | _ \<Rightarrow> True)"

definition py_eq :: "json \<Rightarrow> json \<Rightarrow> bool" where
  "py_eq a b =
     (case (num_of a, num_of b) of
        (Some x, Some y) \<Rightarrow> x = y
      | (None, None) \<Rightarrow> a = b
      | _ \<Rightarrow> False)"

subsection \<open>\<^verbatim>\<open>int(s)\<close> on a string\<close>

text \<open>
  \<^verbatim>\<open>int\<close> strips surrounding whitespace, reads an optional sign and then decimal digits,
  where single underscores may stand between digits; anything else is a
  \<^verbatim>\<open>ValueError\<close>, and so is a number of more than 4300 digits (the default of
  \<^verbatim>\<open>sys.set_int_max_str_digits\<close> in CPython 3.11; zeros in front count, the sign and the
  underscores do not). A character stands for the code point of the same number, below
  256. The whitespace \<^verbatim>\<open>int\<close> strips is then tab to carriage return (9 to 13), the space
  (32), and the two spaces beyond ASCII, next line (133) and no-break space (160); the
  separators 28 to 31, which \<^verbatim>\<open>str.strip\<close> removes, are not stripped by \<^verbatim>\<open>int\<close>.
\<close>

definition py_space :: "char \<Rightarrow> bool" where
  "py_space c =
     (let n = (of_char c :: nat) in (9 \<le> n \<and> n \<le> 13) \<or> n = 32 \<or> n = 133 \<or> n = 160)"

definition max_str_digits :: nat where
  "max_str_digits = 4300"

definition is_digit :: "char \<Rightarrow> bool" where
  "is_digit c = (let n = (of_char c :: nat) in 48 \<le> n \<and> n \<le> 57)"

definition digit_val :: "char \<Rightarrow> int" where
  "digit_val c = int (of_char c) - 48"

definition strip :: "string \<Rightarrow> string" where
  "strip s = rev (dropWhile py_space (rev (dropWhile py_space s)))"

fun parse_digits :: "int \<Rightarrow> string \<Rightarrow> int option" where
  "parse_digits acc [] = Some acc"
| "parse_digits acc (c # cs) =
     (if is_digit c then parse_digits (10 * acc + digit_val c) cs
      else if c = CHR ''_'' \<and> cs \<noteq> [] \<and> is_digit (hd cs) then parse_digits acc cs
      else None)"

definition py_int :: "string \<Rightarrow> py_error + int" where
  "py_int s =
     (let t = strip s;
          neg = (t \<noteq> [] \<and> hd t = CHR ''-'');
          ds = (if t \<noteq> [] \<and> (hd t = CHR ''-'' \<or> hd t = CHR ''+'') then tl t else t)
      in if ds = [] \<or> \<not> is_digit (hd ds) then Inl ValueError
         else if length (filter is_digit ds) > max_str_digits then Inl ValueError
         else (case parse_digits 0 ds of
                 None \<Rightarrow> Inl ValueError
               | Some n \<Rightarrow> Inr (if neg then - n else n)))"

section \<open>The dataset decoder: \<^verbatim>\<open>EurostatAPI.process_dataset_to_json\<close>\<close>

text \<open>One row of an indicator's table, the dictionary appended at lines 184--189.\<close>

record observation =
  time :: json
  geo :: string
  unit :: string
  val :: json

text \<open>
  \<^verbatim>\<open>indicator_dfs\<close>: a dictionary from the indicator's label to its rows, in insertion
  order.
\<close>

type_synonym table = "(json \<times> observation list) list"

text \<open>
  Lines 180--189: \<^verbatim>\<open>if na_item not in indicator_dfs: indicator_dfs[na_item] = []\<close>, then
  \<^verbatim>\<open>indicator_dfs[na_item].append(row)\<close>.
\<close>

fun table_append :: "json \<Rightarrow> observation \<Rightarrow> table \<Rightarrow> table" where
  "table_append na_item row [] = [(na_item, [row])]"
| "table_append na_item row ((k, rows) # t) =
     (if py_eq k na_item then (k, rows @ [row]) # t
      else (k, rows) # table_append na_item row t)"

text \<open>
  The body of the loop over \<^verbatim>\<open>values.items()\<close>, lines 148--177, up to the row it builds:
  \<open>Inr None\<close> is \<^verbatim>\<open>continue\<close>, \<open>Inr (Some (na_item, row))\<close> the indicator's label and the
  row. Python's \<^verbatim>\<open>%\<close> and \<^verbatim>\<open>//\<close> on integers are \<open>mod\<close> and \<open>div\<close> on \<open>int\<close> (both
  round towards minus infinity).
\<close>

definition decode_item ::
  "json \<Rightarrow> json \<Rightarrow> json \<Rightarrow> json \<Rightarrow> string \<times> json \<Rightarrow> py_error + (json \<times> observation) option"
where
  "decode_item time_labels na_item_labels geo_labels unit_labels kv =
     (case py_int (fst kv) of Inl e \<Rightarrow> Inl e | Inr idx \<Rightarrow>
      (case dict_keys time_labels of Inl e \<Rightarrow> Inl e | Inr time_keys \<Rightarrow>
       if length time_keys = 0 then Inl ZeroDivisionError else
       let time_key = time_keys ! nat (idx mod int (length time_keys)) in
      (case dict_keys na_item_labels of Inl e \<Rightarrow> Inl e | Inr na_item_keys \<Rightarrow>
       if length na_item_keys = 0 then Inl ZeroDivisionError else
       let na_item_key =
             na_item_keys ! nat ((idx div int (length time_keys)) mod int (length na_item_keys)) in
       if time_key \<notin> set time_keys then Inr None else
      (case getitem time_labels time_key of Inl e \<Rightarrow> Inl e | Inr time_label \<Rightarrow>
       if na_item_key \<notin> set na_item_keys then Inr None else
      (case getitem na_item_labels na_item_key of Inl e \<Rightarrow> Inl e | Inr na_item \<Rightarrow>
      (case dict_keys geo_labels of Inl e \<Rightarrow> Inl e | Inr geo_keys \<Rightarrow>
       if geo_keys = [] then Inl IndexError else
      (case dict_keys unit_labels of Inl e \<Rightarrow> Inl e | Inr unit_keys \<Rightarrow>
       if unit_keys = [] then Inl IndexError else
       Inr (Some (na_item,
         \<lparr>time = time_label, geo = hd geo_keys, unit = hd unit_keys, val = snd kv\<rparr>)))))))))"

text \<open>
  The loop, lines 147--189, over the items in the order the dictionary holds them. A
  label that is a list or a dictionary cannot be a key of \<^verbatim>\<open>indicator_dfs\<close>.
\<close>

fun decode_loop ::
  "json \<Rightarrow> json \<Rightarrow> json \<Rightarrow> json \<Rightarrow> (string \<times> json) list \<Rightarrow> table \<Rightarrow> py_error + table"
where
  "decode_loop tls nls gls uls [] indicator_dfs = Inr indicator_dfs"
| "decode_loop tls nls gls uls (kv # rest) indicator_dfs =
     (case decode_item tls nls gls uls kv of
        Inl e \<Rightarrow> Inl e
      | Inr None \<Rightarrow> decode_loop tls nls gls uls rest indicator_dfs
      | Inr (Some (na_item, row)) \<Rightarrow>
          if hashable na_item
          then decode_loop tls nls gls uls rest (table_append na_item row indicator_dfs)
          else Inl TypeError)"

text \<open>\<^verbatim>\<open>dataset_json['data']['dimension'][axis]['category']['label']\<close>, lines 134--137.\<close>

definition axis_labels :: "json \<Rightarrow> string \<Rightarrow> py_error + json" where
  "axis_labels d axis =
     (case getitem d ''dimension'' of Inl e \<Rightarrow> Inl e | Inr dims \<Rightarrow>
      (case getitem dims axis of Inl e \<Rightarrow> Inl e | Inr a \<Rightarrow>
      (case getitem a ''category'' of Inl e \<Rightarrow> Inl e | Inr c \<Rightarrow>
       getitem c ''label'')))"

text \<open>
  Lines 129--189: the dictionary \<^verbatim>\<open>indicator_dfs\<close> when the loop has ended, \<open>None\<close> when
  the payload has no \<^verbatim>\<open>'dimension'\<close> (the \<^verbatim>\<open>else\<close> branch of line 217, which returns
  \<^verbatim>\<open>None\<close>).
\<close>

definition indicator_tables :: "json \<Rightarrow> py_error + table option" where
  "indicator_tables dataset_json =
     (case getitem dataset_json ''data'' of Inl e \<Rightarrow> Inl e | Inr d \<Rightarrow>
      (case contains d ''dimension'' of Inl e \<Rightarrow> Inl e | Inr has_dimension \<Rightarrow>
       if \<not> has_dimension then Inr None else
      (case axis_labels d ''time'' of Inl e \<Rightarrow> Inl e | Inr time_labels \<Rightarrow>
      (case axis_labels d ''na_item'' of Inl e \<Rightarrow> Inl e | Inr na_item_labels \<Rightarrow>
      (case axis_labels d ''geo'' of Inl e \<Rightarrow> Inl e | Inr geo_labels \<Rightarrow>
      (case axis_labels d ''unit'' of Inl e \<Rightarrow> Inl e | Inr unit_labels \<Rightarrow>
      (case getitem d ''value'' of Inl e \<Rightarrow> Inl e | Inr values \<Rightarrow>
      (case dict_items values of Inl e \<Rightarrow> Inl e | Inr items \<Rightarrow>
      (case decode_loop time_labels na_item_labels geo_labels unit_labels items [] of
         Inl e \<Rightarrow> Inl e
       | Inr indicator_dfs \<Rightarrow> Inr (Some indicator_dfs))))))))))"

subsection \<open>The export, lines 191--215\<close>

text \<open>
  The function serialises every indicator's rows with pandas and writes files whose names
  it builds from the indicators' labels. Two things it uses are not code of the
  repository and are parameters here:
  \<^item> \<open>to_json\<close>, what \<^verbatim>\<open>pd.DataFrame(records).to_json(orient='records')\<close> gives for a
    list of rows: the text, or the exception pandas raises. It is the library's business
    how a number is printed there; the text is taken to be JSON, which \<^verbatim>\<open>json.loads\<close>
    at line 201 reads back.
  \<^item> \<open>fs\<close>, the file system: for a path, the exception that opening it for writing
    raises, if any (\<^verbatim>\<open>FileNotFoundError\<close> when a directory of the path does not exist,
    as for a label that contains a slash). What is written into the files is not
    modelled, and \<^verbatim>\<open>os.makedirs\<close> of the output directory (line 127) is taken to succeed.
\<close>

type_synonym filesystem = "string \<Rightarrow> py_error option"

type_synonym serialiser = "observation list \<Rightarrow> py_error + string"

definition is_str :: "json \<Rightarrow> bool" where
  "is_str obj = (case obj of JStr _ \<Rightarrow> True | _ \<Rightarrow> False)"

text \<open>\<^verbatim>\<open>s.replace(' ', '_')\<close> and \<^verbatim>\<open>os.path.join(a, b)\<close> (POSIX).\<close>

definition replace_spaces :: "string \<Rightarrow> string" where
  "replace_spaces s = map (\<lambda>c. if c = CHR '' '' then CHR ''_'' else c) s"

definition path_join :: "string \<Rightarrow> string \<Rightarrow> string" where
  "path_join a b =
     (if b \<noteq> [] \<and> hd b = CHR ''/'' then b
      else if a = [] \<or> last a = CHR ''/'' then a @ b
      else a @ ''/'' @ b)"

definition open_w :: "filesystem \<Rightarrow> string \<Rightarrow> py_error + unit" where
  "open_w fs path = (case fs path of Some e \<Rightarrow> Inl e | None \<Rightarrow> Inr ())"

text \<open>
  Lines 199--201 and 206--207: the file of one indicator, with the extension
  \<^verbatim>\<open>.json\<close> or \<^verbatim>\<open>.csv\<close>. Only a string has \<^verbatim>\<open>replace\<close>.
\<close>

definition table_path :: "string \<Rightarrow> string \<Rightarrow> string \<Rightarrow> string" where
  "table_path output_dir indicator ext = path_join output_dir (replace_spaces indicator @ ext)"

definition save_table :: "filesystem \<Rightarrow> string \<Rightarrow> json \<Rightarrow> string \<Rightarrow> py_error + unit" where
  "save_table fs output_dir indicator ext =
     (case indicator of
        JStr s \<Rightarrow> open_w fs (table_path output_dir s ext)
      | _ \<Rightarrow> Inl AttributeError)"

text \<open>The loop of lines 193--208 over \<^verbatim>\<open>indicator_dfs.items()\<close>, building \<^verbatim>\<open>json_result\<close>.\<close>

fun export_tables ::
  "filesystem \<Rightarrow> serialiser \<Rightarrow> string \<Rightarrow> bool \<Rightarrow> bool \<Rightarrow> table \<Rightarrow>
     py_error + (json \<times> string) list"
where
  "export_tables fs to_json output_dir save_separate_tables save_csv [] = Inr []"
| "export_tables fs to_json output_dir save_separate_tables save_csv ((indicator, records) # rest) =
     (case to_json records of Inl e \<Rightarrow> Inl e | Inr table_json \<Rightarrow>
      (case (if save_separate_tables then save_table fs output_dir indicator ''.json'' else Inr ()) of
         Inl e \<Rightarrow> Inl e | Inr _ \<Rightarrow>
      (case (if save_csv then save_table fs output_dir indicator ''.csv'' else Inr ()) of
         Inl e \<Rightarrow> Inl e | Inr _ \<Rightarrow>
      (case export_tables fs to_json output_dir save_separate_tables save_csv rest of
         Inl e \<Rightarrow> Inl e
       | Inr json_result \<Rightarrow> Inr ((indicator, table_json) # json_result)))))"

text \<open>
  \<^verbatim>\<open>process_dataset_to_json\<close>: the returned value, \<^verbatim>\<open>json_result\<close> (for every indicator the
  text pandas gives for its rows) after the file \<^verbatim>\<open>final_output.json\<close> has been written, or
  \<^verbatim>\<open>None\<close>. The delimiter of the CSV files bears only on what is written and is left out.
\<close>

definition process_dataset_to_json ::
  "filesystem \<Rightarrow> serialiser \<Rightarrow> json \<Rightarrow> string \<Rightarrow> bool \<Rightarrow> bool \<Rightarrow>
     py_error + (json \<times> string) list option"
where
  "process_dataset_to_json fs to_json dataset_json output_dir save_separate_tables save_csv =
     (case indicator_tables dataset_json of
        Inl e \<Rightarrow> Inl e
      | Inr None \<Rightarrow> Inr None
      | Inr (Some indicator_dfs) \<Rightarrow>
         (case export_tables fs to_json output_dir save_separate_tables save_csv indicator_dfs of
            Inl e \<Rightarrow> Inl e
          | Inr json_result \<Rightarrow>
             (case open_w fs (path_join output_dir ''final_output.json'') of
                Inl e \<Rightarrow> Inl e
              | Inr _ \<Rightarrow> Inr (Some json_result))))"

section \<open>Table filtering: the post-processing of \<^verbatim>\<open>generate_data\<close>\<close>

text \<open>
  Lines 139--144 of \<^verbatim>\<open>api.py\<close>. The request's \<^verbatim>\<open>indicators\<close> and \<^verbatim>\<open>time_range\<close> are
  \<^verbatim>\<open>Optional[List[str]]\<close>; \<^verbatim>\<open>if indicators:\<close> is false for \<^verbatim>\<open>None\<close> and for the empty
  list, and then the table is left as it is. \<^verbatim>\<open>k in indicators\<close> compares the table's key
  with each string of the list.
\<close>

definition py_in :: "json \<Rightarrow> string list \<Rightarrow> bool" where
  "py_in x names = list_ex (\<lambda>s. py_eq x (JStr s)) names"

definition given :: "string list option \<Rightarrow> bool" where
  "given names = (case names of None \<Rightarrow> False | Some l \<Rightarrow> l \<noteq> [])"

definition filter_indicators :: "string list option \<Rightarrow> table \<Rightarrow> table" where
  "filter_indicators indicators processed_dataset =
     (if given indicators
      then filter (\<lambda>(k, v). py_in k (the indicators)) processed_dataset
      else processed_dataset)"

definition filter_time_range :: "string list option \<Rightarrow> table \<Rightarrow> table" where
  "filter_time_range time_range processed_dataset =
     (if given time_range
      then map (\<lambda>(key, rows). (key, filter (\<lambda>data. py_in (time data) (the time_range)) rows))
             processed_dataset
      else processed_dataset)"

section \<open>The response cache: \<^verbatim>\<open>EurostatAPI.get_dataset\<close>\<close>

text \<open>
  A cache file holds a JSON document or something that \<^verbatim>\<open>json.load\<close> cannot read: text
  that is not JSON (\<^verbatim>\<open>JSONDecodeError\<close>), bytes that are not text in the encoding of
  \<^verbatim>\<open>open\<close> (\<^verbatim>\<open>UnicodeDecodeError\<close>), or JSON nested deeper than the interpreter's
  recursion limit (\<^verbatim>\<open>RecursionError\<close>). The
  world the SDK runs in: the files by path, the clock that \<^verbatim>\<open>time.time()\<close> reads, and
  the URLs requested so far. The network is a parameter \<open>net\<close>: for a URL and the query
  parameters, what \<^verbatim>\<open>requests.get\<close>, \<^verbatim>\<open>raise_for_status\<close> and \<^verbatim>\<open>response.json()\<close>
  produce (an exception or the decoded body) and how long the request takes. Directories
  and permissions are not modelled: a file that exists can be read, and writing a file
  succeeds.
\<close>

datatype file_content = NotJson | NotUnicode | TooDeep | Json json

record world =
  files :: "string \<Rightarrow> file_content option"
  clock :: real
  requests :: "string list"

type_synonym 'p network = "string \<Rightarrow> 'p \<Rightarrow> (py_error + json) \<times> real"

definition BASE_URL_JSON :: string where
  "BASE_URL_JSON = ''https://ec.europa.eu/eurostat/api/dissemination/statistics/1.0/data/''"

definition BASE_URL_SDMX :: string where
  "BASE_URL_SDMX = ''https://ec.europa.eu/eurostat/api/dissemination/sdmx/3.0/data/dataflow/''"

text \<open>
  \<^verbatim>\<open>_make_request\<close>, lines 34--44: every exception of the request is caught and the
  function returns \<^verbatim>\<open>None\<close>.
\<close>

definition make_request :: "'p network \<Rightarrow> string \<Rightarrow> 'p \<Rightarrow> world \<Rightarrow> json \<times> world" where
  "make_request net url params w =
     (let (response, duration) = net url params;
          w' = w\<lparr>clock := clock w + duration, requests := requests w @ [url]\<rparr>
      in (case response of Inl err \<Rightarrow> (JNull, w') | Inr body \<Rightarrow> (body, w')))"

text \<open>\<^verbatim>\<open>_cache_response\<close>, lines 53--56.\<close>

definition cache_response :: "string \<Rightarrow> json \<Rightarrow> world \<Rightarrow> world" where
  "cache_response cache_file data w =
     (let current_time = clock w;
          cache_data = JObj [(''data'', data), (''timestamp'', JNum current_time)]
      in w\<lparr>files := (files w)(cache_file \<mapsto> Json cache_data)\<rparr>)"

text \<open>
  \<^verbatim>\<open>_load_cache\<close>, lines 65--70. Nothing here catches an exception: \<^verbatim>\<open>json.load\<close> on a
  file that it cannot read, a document without \<^verbatim>\<open>'timestamp'\<close> or \<^verbatim>\<open>'data'\<close>, and a
  timestamp that is not a number all raise.
\<close>

definition load_cache :: "string \<Rightarrow> real \<Rightarrow> world \<Rightarrow> py_error + json" where
  "load_cache cache_file timeout w =
     (case files w cache_file of
        None \<Rightarrow> Inr JNull
      | Some NotJson \<Rightarrow> Inl JSONDecodeError
      | Some NotUnicode \<Rightarrow> Inl UnicodeDecodeError
      | Some TooDeep \<Rightarrow> Inl RecursionError
      | Some (Json cache_data) \<Rightarrow>
         (case getitem cache_data ''timestamp'' of Inl e \<Rightarrow> Inl e | Inr ts \<Rightarrow>
          (case num_of ts of None \<Rightarrow> Inl TypeError | Some t \<Rightarrow>
           if clock w - t < timeout then getitem cache_data ''data'' else Inr JNull)))"

text \<open>Lines 95--100: the URL for the format, or \<^verbatim>\<open>ValueError\<close>.\<close>

definition dataset_url :: "string \<Rightarrow> string \<Rightarrow> py_error + string" where
  "dataset_url format_type dataset_id =
     (if format_type = ''json'' then Inr (BASE_URL_JSON @ dataset_id)
      else if format_type = ''sdmx'' then Inr (BASE_URL_SDMX @ dataset_id @ ''/1.0'')
      else Inl ValueError)"

text \<open>
  \<^verbatim>\<open>get_dataset\<close>, lines 89--110. \<^verbatim>\<open>_load_cache\<close> is called with its default timeout
  of 3600 seconds. The result is the returned value (or the exception raised) and the
  world the call leaves.
\<close>

definition get_dataset ::
  "'p network \<Rightarrow> string \<Rightarrow> 'p \<Rightarrow> string \<Rightarrow> bool \<Rightarrow> string \<Rightarrow> world \<Rightarrow> (py_error + json) \<times> world"
where
  "get_dataset net dataset_id params format_type cache cache_file w =
     (case (if cache then load_cache cache_file 3600 w else Inr JNull) of
        Inl e \<Rightarrow> (Inl e, w)
      | Inr cached_data \<Rightarrow>
          if cache \<and> truthy cached_data then (Inr cached_data, w)
          else
           (case dataset_url format_type dataset_id of
              Inl e \<Rightarrow> (Inl e, w)
            | Inr url \<Rightarrow>
               (case make_request net url params w of
                  (dataset, w1) \<Rightarrow>
                    if truthy dataset
                    then (Inr dataset, if cache then cache_response cache_file dataset w1 else w1)
                    else (Inr JNull, w1))))"

section \<open>Notions the statements use\<close>



text \<open>A key of \<^verbatim>\<open>values\<close> that \<^verbatim>\<open>int\<close> accepts, and the linear index it denotes.\<close>

definition is_index :: "string \<Rightarrow> bool" where
  "is_index k = (case py_int k of Inl _ \<Rightarrow> False | Inr _ \<Rightarrow> True)"

definition index_of :: "string \<Rightarrow> int" where
  "index_of k = (case py_int k of Inl _ \<Rightarrow> 0 | Inr i \<Rightarrow> i)"

text \<open>
  The positions of section 4.2 of the specification: \<open>i mod size(time)\<close> and
  \<open>(i div size(time)) mod size(indicator)\<close>, in the axes' declared orders.
\<close>

definition spec_time_position :: "(string \<times> json) list \<Rightarrow> int \<Rightarrow> nat" where
  "spec_time_position tls i = nat (i mod int (length tls))"

definition spec_indicator_position ::
  "(string \<times> json) list \<Rightarrow> (string \<times> json) list \<Rightarrow> int \<Rightarrow> nat" where
  "spec_indicator_position tls nls i = nat ((i div int (length tls)) mod int (length nls))"

text \<open>
  For an item of \<^verbatim>\<open>values\<close>: the indicator label at the indicator position of its key,
  and the row with the time label at the time position, the first category key of the
  geo and of the unit axis, and the item's value.
\<close>

definition item_indicator ::
  "(string \<times> json) list \<Rightarrow> (string \<times> json) list \<Rightarrow> string \<times> json \<Rightarrow> json" where
  "item_indicator tls nls kv = snd (nls ! spec_indicator_position tls nls (index_of (fst kv)))"

definition item_row ::
  "(string \<times> json) list \<Rightarrow> (string \<times> json) list \<Rightarrow> (string \<times> json) list \<Rightarrow>
     string \<times> json \<Rightarrow> observation" where
  "item_row tls gls uls kv =
     \<lparr>time = snd (tls ! spec_time_position tls (index_of (fst kv))),
      geo = fst (hd gls), unit = fst (hd uls), val = snd kv\<rparr>"

text \<open>
  The payload \<open>d\<close> (the value under \<^verbatim>\<open>'data'\<close>) has the four axes with the category
  labels \<open>tls\<close>, \<open>nls\<close>, \<open>gls\<close>, \<open>uls\<close> and the values \<open>vals\<close>; it may hold anything else
  besides.
\<close>

definition dataset_parts ::
  "json \<Rightarrow> (string \<times> json) list \<Rightarrow> (string \<times> json) list \<Rightarrow> (string \<times> json) list \<Rightarrow>
     (string \<times> json) list \<Rightarrow> (string \<times> json) list \<Rightarrow> bool" where
  "dataset_parts d tls nls gls uls vals =
     (axis_labels d ''time'' = Inr (JObj tls) \<and>
      axis_labels d ''na_item'' = Inr (JObj nls) \<and>
      axis_labels d ''geo'' = Inr (JObj gls) \<and>
      axis_labels d ''unit'' = Inr (JObj uls) \<and>
      getitem d ''value'' = Inr (JObj vals))"

text \<open>
  A valid dataset: every axis has a category, no dictionary holds a key twice, the
  indicator labels are strings and every key of \<^verbatim>\<open>values\<close> is an integer.
\<close>

definition valid_dataset ::
  "(string \<times> json) list \<Rightarrow> (string \<times> json) list \<Rightarrow> (string \<times> json) list \<Rightarrow>
     (string \<times> json) list \<Rightarrow> (string \<times> json) list \<Rightarrow> bool" where
  "valid_dataset tls nls gls uls vals =
     (tls \<noteq> [] \<and> nls \<noteq> [] \<and> gls \<noteq> [] \<and> uls \<noteq> [] \<and>
      distinct (map fst tls) \<and> distinct (map fst nls) \<and> distinct (map fst vals) \<and>
      list_all is_str (map snd nls) \<and> list_all is_index (map fst vals))"

text \<open>
  The table the loop builds from the items of \<^verbatim>\<open>values\<close>, taken in their order: each
  item's row is appended under the item's indicator.
\<close>

definition decoded_table ::
  "(string \<times> json) list \<Rightarrow> (string \<times> json) list \<Rightarrow> (string \<times> json) list \<Rightarrow>
     (string \<times> json) list \<Rightarrow> (string \<times> json) list \<Rightarrow> table" where
  "decoded_table tls nls gls uls vals =
     foldl (\<lambda>T kv. table_append (item_indicator tls nls kv) (item_row tls gls uls kv) T) [] vals"

text \<open>
  The files the export opens for the indicators with the given labels, and a file system
  in which each of them can be opened for writing. A table can be serialised when pandas
  raises on none of its lists of rows, and \<open>R\<close> is its serialisation, \<^verbatim>\<open>json_result\<close>, when
  \<open>R\<close> has the same indicators in the same order, each with the text of its rows.
\<close>

definition export_paths :: "string \<Rightarrow> bool \<Rightarrow> bool \<Rightarrow> json list \<Rightarrow> string list" where
  "export_paths output_dir save_separate_tables save_csv indicators =
     concat (map (\<lambda>indicator. case indicator of
                    JStr s \<Rightarrow>
                      (if save_separate_tables then [table_path output_dir s ''.json''] else []) @
                      (if save_csv then [table_path output_dir s ''.csv''] else [])
                  | _ \<Rightarrow> []) indicators)
     @ [path_join output_dir ''final_output.json'']"

definition writable :: "filesystem \<Rightarrow> string list \<Rightarrow> bool" where
  "writable fs paths = list_all (\<lambda>path. fs path = None) paths"

definition can_serialise :: "serialiser \<Rightarrow> table \<Rightarrow> bool" where
  "can_serialise to_json T = list_all (\<lambda>records. \<not> isl (to_json records)) (map snd T)"

definition serialises :: "serialiser \<Rightarrow> table \<Rightarrow> (json \<times> string) list \<Rightarrow> bool" where
  "serialises to_json T R =
     list_all2 (\<lambda>(indicator, records) (key, table_json).
        key = indicator \<and> to_json records = Inr table_json) T R"

text \<open>The argument the callers build, \<^verbatim>\<open>{"data": dataset}\<close>, for a payload of this shape.\<close>

definition axis_json :: "(string \<times> json) list \<Rightarrow> json" where
  "axis_json labels = JObj [(''category'', JObj [(''label'', JObj labels)])]"

definition payload ::
  "(string \<times> json) list \<Rightarrow> (string \<times> json) list \<Rightarrow> (string \<times> json) list \<Rightarrow>
     (string \<times> json) list \<Rightarrow> (string \<times> json) list \<Rightarrow> json" where
  "payload tls nls gls uls vals =
     JObj [(''dimension'', JObj [(''time'', axis_json tls), (''na_item'', axis_json nls),
                                 (''geo'', axis_json gls), (''unit'', axis_json uls)]),
           (''value'', JObj vals)]"

definition wrap :: "json \<Rightarrow> json" where
  "wrap dataset = JObj [(''data'', dataset)]"

section \<open>Example datasets\<close>

text \<open>
  The scenario of section 8 of the specification, the same axes with a gap in the values
  (no key 3), with the values presented in descending key order, and with a geo and a
  unit axis whose category keys differ from their labels.
\<close>

definition scenario_time :: "(string \<times> json) list" where
  "scenario_time = [(''0'', JStr ''2020''), (''1'', JStr ''2021'')]"

definition scenario_indicator :: "(string \<times> json) list" where
  "scenario_indicator = [(''0'', JStr ''GDP''), (''1'', JStr ''CPI'')]"

definition scenario_geo :: "(string \<times> json) list" where
  "scenario_geo = [(''0'', JStr ''IT'')]"

definition scenario_unit :: "(string \<times> json) list" where
  "scenario_unit = [(''0'', JStr ''EUR'')]"

definition scenario_values :: "(string \<times> json) list" where
  "scenario_values = [(''0'', JNum 100), (''1'', JNum 200), (''2'', JNum 5), (''3'', JNum 7)]"


definition gap_values :: "(string \<times> json) list" where
  "gap_values = [(''0'', JNum 100), (''1'', JNum 200), (''2'', JNum 5), (''4'', JNum 9)]"


definition labelled_geo :: "(string \<times> json) list" where
  "labelled_geo = [(''IT'', JStr ''Italy'')]"

definition labelled_unit :: "(string \<times> json) list" where
  "labelled_unit = [(''CP_MEUR'', JStr ''Current prices, million euro'')]"

text \<open>
  An output directory \<^verbatim>\<open>output\<close> that has no subdirectory: a file directly in it can be
  written, any other path raises \<^verbatim>\<open>FileNotFoundError\<close>. A stand-in for pandas that
  writes one mark per row. An indicator whose label holds a slash, and a value key that
  starts with the separator character 28.

  The axes the decoder reads, in the order of lines 134--137; a payload without
  \<^verbatim>\<open>'dimension'\<close>; the scenario without its indicator axis; and the table decoded from
  the scenario.
\<close>

definition flat_directory :: filesystem where
  "flat_directory path =
     (if CHR ''/'' \<in> set (drop (length ''output/'') path) \<or> take (length ''output/'') path \<noteq> ''output/''
      then Some FileNotFoundError else None)"

definition tally :: serialiser where
  "tally records = Inr (replicate (length records) CHR ''r'')"

definition slash_indicator :: "(string \<times> json) list" where
  "slash_indicator = [(''0'', JStr ''GDP/capita'')]"





definition decoded_scenario :: table where
  "decoded_scenario =
     [(JStr ''GDP'', [\<lparr>time = JStr ''2020'', geo = ''0'', unit = ''0'', val = JNum 100\<rparr>,
                      \<lparr>time = JStr ''2021'', geo = ''0'', unit = ''0'', val = JNum 200\<rparr>]),
      (JStr ''CPI'', [\<lparr>time = JStr ''2020'', geo = ''0'', unit = ''0'', val = JNum 5\<rparr>,
                      \<lparr>time = JStr ''2021'', geo = ''0'', unit = ''0'', val = JNum 7\<rparr>])]"

text \<open>
  For the cache: two payloads, a network that answers and one that times out, a cache
  entry as \<^verbatim>\<open>_cache_response\<close> writes it, and a world with one cache file.
\<close>

definition fetched_payload :: json where
  "fetched_payload = payload scenario_time scenario_indicator scenario_geo scenario_unit scenario_values"

definition stored_payload :: json where
  "stored_payload = payload scenario_time scenario_indicator scenario_geo scenario_unit gap_values"

definition net_ok :: "unit network" where
  "net_ok url params = (Inr fetched_payload, 2)"

definition net_down :: "unit network" where
  "net_down url params = (Inl Timeout, 10)"

definition cache_entry :: "json \<Rightarrow> real \<Rightarrow> file_content" where
  "cache_entry data timestamp = Json (JObj [(''data'', data), (''timestamp'', JNum timestamp)])"

definition world_at :: "real \<Rightarrow> file_content option \<Rightarrow> world" where
  "world_at now entry =
     \<lparr>files = (\<lambda>path. if path = ''gdp_cache.json'' then entry else None),
      clock = now, requests = []\<rparr>"

section \<open>Lemmas: the decoder on a valid dataset\<close>

lemma nat_mod_less: "n \<noteq> 0 \<Longrightarrow> nat (i mod int n) < n"
  by (simp add: nat_less_iff)

lemma getitem_nth:
  assumes "distinct (map fst kvs)" "p < length kvs"
  shows "getitem (JObj kvs) (map fst kvs ! p) = Inr (snd (kvs ! p))"
proof -
  have "(fst (kvs ! p), snd (kvs ! p)) \<in> set kvs" using assms(2) by simp
  then have "map_of kvs (fst (kvs ! p)) = Some (snd (kvs ! p))"
    using assms(1) by (simp only: map_of_eq_Some_iff)
  then show ?thesis using assms(2) by (simp add: getitem_def)
qed

lemma decode_item_wf:
  assumes "tls \<noteq> []" "nls \<noteq> []" "gls \<noteq> []" "uls \<noteq> []"
    and "distinct (map fst tls)" "distinct (map fst nls)"
    and "py_int (fst kv) = Inr i"
  shows "decode_item (JObj tls) (JObj nls) (JObj gls) (JObj uls) kv =
           Inr (Some (item_indicator tls nls kv, item_row tls gls uls kv))"
proof -
  let ?pt = "nat (i mod int (length tls))"
  let ?pn = "nat ((i div int (length tls)) mod int (length nls))"
  have pt: "?pt < length tls" using assms(1) by (simp add: nat_mod_less)
  have pn: "?pn < length nls" using assms(2) by (simp add: nat_mod_less)
  have gt: "getitem (JObj tls) (map fst tls ! ?pt) = Inr (snd (tls ! ?pt))"
    using assms(5) pt by (rule getitem_nth)
  have gn: "getitem (JObj nls) (map fst nls ! ?pn) = Inr (snd (nls ! ?pn))"
    using assms(6) pn by (rule getitem_nth)
  have mt: "map fst tls ! ?pt \<in> set (map fst tls)" using nth_mem [of "?pt" "map fst tls"] pt by simp
  have mn: "map fst nls ! ?pn \<in> set (map fst nls)" using nth_mem [of "?pn" "map fst nls"] pn by simp
  show ?thesis
    using assms(1-4,7) gt gn mt mn
    by (simp add: decode_item_def dict_keys_def Let_def item_indicator_def item_row_def index_of_def
        spec_time_position_def spec_indicator_position_def hd_map del: set_map)
qed

lemma is_str_hashable: "is_str l \<Longrightarrow> hashable l"
  by (cases l) (simp_all add: is_str_def hashable_def)

lemma item_indicator_in:
  "nls \<noteq> [] \<Longrightarrow> item_indicator tls nls kv \<in> set (map snd nls)"
proof -
  assume "nls \<noteq> []"
  then have "spec_indicator_position tls nls (index_of (fst kv)) < length nls"
    by (simp add: spec_indicator_position_def nat_mod_less)
  then show ?thesis
    using nth_mem [of "spec_indicator_position tls nls (index_of (fst kv))" "map snd nls"]
    by (simp add: item_indicator_def)
qed

lemma item_indicator_is_str:
  assumes "nls \<noteq> []" "list_all is_str (map snd nls)"
  shows "is_str (item_indicator tls nls kv)"
proof -
  have "item_indicator tls nls kv \<in> set (map snd nls)"
    using assms(1) by (rule item_indicator_in)
  then show ?thesis using assms(2) by (simp only: list_all_iff)
qed

lemma decode_loop_wf:
  assumes "tls \<noteq> []" "nls \<noteq> []" "gls \<noteq> []" "uls \<noteq> []"
    and "distinct (map fst tls)" "distinct (map fst nls)"
    and "list_all is_str (map snd nls)"
  shows "list_all is_index (map fst items) \<Longrightarrow>
         decode_loop (JObj tls) (JObj nls) (JObj gls) (JObj uls) items T =
           Inr (foldl (\<lambda>T kv. table_append (item_indicator tls nls kv) (item_row tls gls uls kv) T) T items)"
proof (induction items arbitrary: T)
  case Nil
  show ?case by simp
next
  case (Cons kv items)
  from Cons.prems obtain i where i: "py_int (fst kv) = Inr i"
    by (cases "py_int (fst kv)") (auto simp: is_index_def)
  have item: "decode_item (JObj tls) (JObj nls) (JObj gls) (JObj uls) kv =
           Inr (Some (item_indicator tls nls kv, item_row tls gls uls kv))"
    using assms(1-6) i by (rule decode_item_wf)
  have "is_str (item_indicator tls nls kv)"
    using assms(2,7) by (rule item_indicator_is_str)
  then have h: "hashable (item_indicator tls nls kv)" by (rule is_str_hashable)
  have rest: "list_all is_index (map fst items)" using Cons.prems by simp
  show ?case
    using item h Cons.IH [OF rest] by simp
qed






lemma keys_table_append:
  "map fst (table_append l r T) =
     (if list_ex (\<lambda>k. py_eq k l) (map fst T) then map fst T else map fst T @ [l])"
  by (induction T) auto



lemma keys_foldl:
  "fst ` set (foldl (\<lambda>T kv. table_append (f kv) (g kv) T) T items) \<subseteq>
     fst ` set T \<union> f ` set items"
proof (induction items arbitrary: T)
  case Nil
  show ?case by simp
next
  case (Cons kv items)
  let ?T' = "table_append (f kv) (g kv) T"
  have "set (map fst ?T') \<subseteq> insert (f kv) (set (map fst T))"
    by (simp only: keys_table_append) auto
  then have A: "fst ` set ?T' \<subseteq> insert (f kv) (fst ` set T)" by simp
  have B: "fst ` set (foldl (\<lambda>T kv. table_append (f kv) (g kv) T) ?T' items) \<subseteq>
     fst ` set ?T' \<union> f ` set items" by (rule Cons.IH)
  from A B have "fst ` set (foldl (\<lambda>T kv. table_append (f kv) (g kv) T) ?T' items) \<subseteq>
     insert (f kv) (fst ` set T) \<union> f ` set items" by blast
  then show ?case by simp
qed

lemma axis_labels_contains:
  "axis_labels d a = Inr l \<Longrightarrow> contains d ''dimension'' = Inr True"
  by (cases d) (auto simp: axis_labels_def getitem_def contains_def
      dest!: map_of_SomeD intro: rev_image_eqI split: option.splits sum.splits)

lemma indicator_tables_parts:
  assumes "dataset_parts d tls nls gls uls vals"
  shows "indicator_tables (wrap d) =
     (case decode_loop (JObj tls) (JObj nls) (JObj gls) (JObj uls) vals [] of
        Inl e \<Rightarrow> Inl e
      | Inr T \<Rightarrow> Inr (Some T))"
proof -
  have c: "contains d ''dimension'' = Inr True"
    using assms axis_labels_contains [of d "''time''"] by (simp add: dataset_parts_def)
  show ?thesis using assms c
    by (simp add: indicator_tables_def wrap_def getitem_def [of "JObj _"] dataset_parts_def
        dict_items_def)
qed

lemma indicator_tables_valid:
  assumes "dataset_parts d tls nls gls uls vals" and "valid_dataset tls nls gls uls vals"
  shows "indicator_tables (wrap d) = Inr (Some (decoded_table tls nls gls uls vals))"
proof -
  have "decode_loop (JObj tls) (JObj nls) (JObj gls) (JObj uls) vals [] =
          Inr (decoded_table tls nls gls uls vals)"
    unfolding decoded_table_def
    using assms(2) by (intro decode_loop_wf) (simp_all add: valid_dataset_def)
  then show ?thesis using indicator_tables_parts [OF assms(1)] by simp
qed

lemma decoded_table_keys:
  assumes "nls \<noteq> []"
  shows "fst ` set (decoded_table tls nls gls uls vals) \<subseteq> snd ` set nls"
proof
  fix l
  assume l: "l \<in> fst ` set (decoded_table tls nls gls uls vals)"
  have "fst ` set (decoded_table tls nls gls uls vals) \<subseteq> item_indicator tls nls ` set vals"
    unfolding decoded_table_def
    using keys_foldl [of "item_indicator tls nls" "item_row tls gls uls" "[]" vals] by simp
  with l have "l \<in> item_indicator tls nls ` set vals" by (rule subsetD [rotated])
  then obtain kv where "l = item_indicator tls nls kv" by (rule imageE)
  then show "l \<in> snd ` set nls"
    using item_indicator_in [OF assms, of tls kv] by simp
qed



section \<open>Lemmas: the export\<close>

lemma writable_final:
  "writable fs (export_paths output_dir sst csv indicators) \<Longrightarrow>
     fs (path_join output_dir ''final_output.json'') = None"
  by (simp add: writable_def export_paths_def)

lemma writable_indicator:
  assumes "writable fs (export_paths output_dir sst csv indicators)" and "JStr s \<in> set indicators"
  shows "(sst \<longrightarrow> fs (table_path output_dir s ''.json'') = None) \<and>
         (csv \<longrightarrow> fs (table_path output_dir s ''.csv'') = None)"
  using assms by (auto simp: writable_def export_paths_def list_all_iff)

lemma export_tables_writable:
  assumes "writable fs (export_paths output_dir sst csv indicators)"
  shows "fst ` set T \<subseteq> set indicators \<Longrightarrow> list_all is_str (map fst T) \<Longrightarrow>
         can_serialise to_json T \<Longrightarrow>
         \<exists>R. export_tables fs to_json output_dir sst csv T = Inr R \<and> serialises to_json T R"
proof (induction T)
  case Nil
  show ?case by (simp add: serialises_def)
next
  case (Cons e T)
  obtain l rows where e: "e = (l, rows)" by (cases e)
  from Cons.prems(2) e obtain s where l: "l = JStr s" by (cases l) (simp_all add: is_str_def)
  from Cons.prems(3) e obtain table_json where t: "to_json rows = Inr table_json"
    by (cases "to_json rows") (simp_all add: can_serialise_def)
  have "JStr s \<in> set indicators" using Cons.prems(1) e l by simp
  then have w: "sst \<longrightarrow> fs (table_path output_dir s ''.json'') = None"
    "csv \<longrightarrow> fs (table_path output_dir s ''.csv'') = None"
    using writable_indicator [OF assms] by blast+
  have "\<exists>R. export_tables fs to_json output_dir sst csv T = Inr R \<and> serialises to_json T R"
    using Cons.IH Cons.prems by (simp add: can_serialise_def)
  then obtain R where R: "export_tables fs to_json output_dir sst csv T = Inr R"
    and S: "serialises to_json T R" by blast
  have "export_tables fs to_json output_dir sst csv (e # T) = Inr ((l, table_json) # R)"
    using e l t w R by (cases sst; cases csv) (simp_all add: save_table_def open_w_def)
  moreover have "serialises to_json (e # T) ((l, table_json) # R)"
    using e t S by (simp add: serialises_def)
  ultimately show ?case by blast
qed

lemma export_tables_serialises:
  "export_tables fs to_json output_dir sst csv T = Inr R \<Longrightarrow> serialises to_json T R"
proof (induction T arbitrary: R)
  case Nil
  then show ?case by (simp add: serialises_def)
next
  case (Cons e T)
  obtain l rows where e: "e = (l, rows)" by (cases e)
  from Cons.prems e obtain table_json R' where t: "to_json rows = Inr table_json"
    and R': "export_tables fs to_json output_dir sst csv T = Inr R'"
    and R: "R = (l, table_json) # R'"
    by (auto split: sum.splits)
  have "serialises to_json T R'" using R' by (rule Cons.IH)
  then show ?case using e t R by (simp add: serialises_def)
qed

lemma process_valid:
  assumes "dataset_parts d tls nls gls uls vals" and "valid_dataset tls nls gls uls vals"
    and "writable fs (export_paths output_dir sst csv (map snd nls))"
    and "can_serialise to_json (decoded_table tls nls gls uls vals)"
  shows "\<exists>R. process_dataset_to_json fs to_json (wrap d) output_dir sst csv = Inr (Some R) \<and>
             serialises to_json (decoded_table tls nls gls uls vals) R"
proof -
  let ?T = "decoded_table tls nls gls uls vals"
  have ne: "nls \<noteq> []" and strs: "list_all is_str (map snd nls)"
    using assms(2) by (simp_all add: valid_dataset_def)
  have keys: "fst ` set ?T \<subseteq> set (map snd nls)"
    using decoded_table_keys [OF ne] by simp
  have "is_str l" if "l \<in> fst ` set ?T" for l
  proof -
    from that keys have "l \<in> set (map snd nls)" by (rule subsetD [rotated])
    then show ?thesis using strs by (simp only: list_all_iff)
  qed
  then have "list_all is_str (map fst ?T)"
    by (simp add: list_all_iff)
  then obtain R where R: "export_tables fs to_json output_dir sst csv ?T = Inr R"
    and S: "serialises to_json ?T R"
    using export_tables_writable [OF assms(3) keys _ assms(4)] by blast
  have "process_dataset_to_json fs to_json (wrap d) output_dir sst csv = Inr (Some R)"
    using indicator_tables_valid [OF assms(1,2)] writable_final [OF assms(3)] R
    by (simp add: process_dataset_to_json_def open_w_def)
  with S show ?thesis by blast
qed


lemma process_returns:
  assumes "process_dataset_to_json fs to_json dataset_json output_dir sst csv = Inr (Some R)"
  shows "\<exists>T. indicator_tables dataset_json = Inr (Some T) \<and> serialises to_json T R"
  using assms export_tables_serialises [of fs to_json output_dir sst csv _ R]
  by (auto simp: process_dataset_to_json_def split: sum.splits option.splits)


lemma serialises_text:
  "serialises to_json [(l, rows)] R = (\<exists>t. to_json rows = Inr t \<and> R = [(l, t)])"
  by (cases R) (auto simp: serialises_def)


section \<open>Lemmas: the examples\<close>

lemma dataset_parts_payload: "dataset_parts (payload tls nls gls uls vals) tls nls gls uls vals"
  by (simp add: dataset_parts_def payload_def axis_json_def axis_labels_def getitem_def)

lemma py_int_digit [simp]:
  "py_int ''0'' = Inr 0" "py_int ''1'' = Inr 1" "py_int ''2'' = Inr 2" "py_int ''3'' = Inr 3" "py_int ''4'' = Inr 4"
  by code_simp+




lemma labelled_valid:
  "valid_dataset scenario_time scenario_indicator labelled_geo labelled_unit scenario_values"
  by (simp add: valid_dataset_def scenario_time_def scenario_indicator_def labelled_geo_def
      labelled_unit_def scenario_values_def is_str_def is_index_def)





lemma flat_directory_scenario:
  "writable flat_directory (export_paths ''output'' sst csv (map snd scenario_indicator))"
  by (simp add: writable_def export_paths_def scenario_indicator_def table_path_def path_join_def
      replace_spaces_def flat_directory_def)


lemma slash_indicator_raises:
  "process_dataset_to_json flat_directory tally
     (wrap (payload scenario_time slash_indicator scenario_geo scenario_unit [(''0'', JNum 100)]))
     ''output'' True True = Inl FileNotFoundError"
  by (simp add: process_dataset_to_json_def indicator_tables_parts [OF dataset_parts_payload]
      decode_item_def Let_def dict_keys_def getitem_def scenario_time_def slash_indicator_def
      scenario_geo_def scenario_unit_def hashable_def save_table_def open_w_def table_path_def
      path_join_def replace_spaces_def flat_directory_def tally_def)

section \<open>Lemmas: empty and missing axes\<close>











lemma labelled_tables:
  "decoded_table scenario_time scenario_indicator labelled_geo labelled_unit scenario_values =
     [(JStr ''GDP'', [\<lparr>time = JStr ''2020'', geo = ''IT'', unit = ''CP_MEUR'', val = JNum 100\<rparr>,
                      \<lparr>time = JStr ''2021'', geo = ''IT'', unit = ''CP_MEUR'', val = JNum 200\<rparr>]),
      (JStr ''CPI'', [\<lparr>time = JStr ''2020'', geo = ''IT'', unit = ''CP_MEUR'', val = JNum 5\<rparr>,
                      \<lparr>time = JStr ''2021'', geo = ''IT'', unit = ''CP_MEUR'', val = JNum 7\<rparr>])]"
  by (simp add: decoded_table_def scenario_time_def scenario_indicator_def labelled_geo_def
      labelled_unit_def scenario_values_def item_indicator_def item_row_def index_of_def
      spec_time_position_def spec_indicator_position_def py_eq_def num_of_def)


section \<open>The decoder: positions, counts and order\<close>





text \<open>
  Claim C3, at a dataset whose geo axis is \<^verbatim>\<open>{"IT": "Italy"}\<close> and whose unit axis is
  \<^verbatim>\<open>{"CP_MEUR": "Current prices, million euro"}\<close>: every row carries the category
  keys \<^verbatim>\<open>IT\<close> and \<^verbatim>\<open>CP_MEUR\<close> of the first categories, not their labels, and these
  rows are what the decoder serialises (here with a serialiser that prints the geo and
  the unit of every row).
\<close>

theorem decode_geo_unit_are_category_keys:
  "indicator_tables
     (wrap (payload scenario_time scenario_indicator labelled_geo labelled_unit scenario_values)) =
   Inr (Some [(JStr ''GDP'', [\<lparr>time = JStr ''2020'', geo = ''IT'', unit = ''CP_MEUR'', val = JNum 100\<rparr>,
                              \<lparr>time = JStr ''2021'', geo = ''IT'', unit = ''CP_MEUR'', val = JNum 200\<rparr>]),
              (JStr ''CPI'', [\<lparr>time = JStr ''2020'', geo = ''IT'', unit = ''CP_MEUR'', val = JNum 5\<rparr>,
                              \<lparr>time = JStr ''2021'', geo = ''IT'', unit = ''CP_MEUR'', val = JNum 7\<rparr>])])
   \<and> process_dataset_to_json flat_directory
     (\<lambda>records. Inr (concat (map (\<lambda>r. geo r @ '' '' @ unit r @ ''; '') records)))
     (wrap (payload scenario_time scenario_indicator labelled_geo labelled_unit scenario_values))
     ''output'' True True =
   Inr (Some [(JStr ''GDP'', ''IT CP_MEUR; IT CP_MEUR; ''), (JStr ''CPI'', ''IT CP_MEUR; IT CP_MEUR; '')])"
proof -
  let ?to_json = "\<lambda>records. Inr (concat (map (\<lambda>r. geo r @ '' '' @ unit r @ ''; '') records))
      :: py_error + string"
  let ?T = "decoded_table scenario_time scenario_indicator labelled_geo labelled_unit scenario_values"
  have w: "writable flat_directory (export_paths ''output'' True True (map snd scenario_indicator))"
    by (rule flat_directory_scenario)
  have c: "can_serialise ?to_json ?T"
    by (simp add: can_serialise_def list_all_iff)
  obtain R where r: "process_dataset_to_json flat_directory ?to_json
     (wrap (payload scenario_time scenario_indicator labelled_geo labelled_unit scenario_values))
     ''output'' True True = Inr (Some R)" and s: "serialises ?to_json ?T R"
    using process_valid [OF dataset_parts_payload labelled_valid w c] by blast
  from s have "R = [(JStr ''GDP'', ''IT CP_MEUR; IT CP_MEUR; ''), (JStr ''CPI'', ''IT CP_MEUR; IT CP_MEUR; '')]"
    by (auto simp: serialises_def labelled_tables list_all2_Cons1)
  with r show ?thesis
    using indicator_tables_valid [OF dataset_parts_payload labelled_valid]
    by (simp add: labelled_tables)
qed




section \<open>The decoder: empty and missing axes\<close>







section \<open>Table filtering\<close>

lemma filter_indicators_time_range_commute:
  "filter_time_range S (filter_indicators A T) = filter_indicators A (filter_time_range S T)"
  by (induction T) (auto simp: filter_time_range_def filter_indicators_def)

lemma filter_time_range_rows:
  "list_all2 (\<lambda>x y. fst x = fst y \<and> subseq (snd x) (snd y)) (filter_time_range S T) T"
  by (induction T) (auto simp: filter_time_range_def list_all2_refl)

text \<open>
  Claim C8. For every table, every list of indicator names and every list of time
  labels, filtering by indicator and then by time gives the same table as filtering by
  time and then by indicator; the indicator filter keeps the entries in their order, and
  the time filter keeps every indicator and, within it, the surviving rows in their order.
\<close>

theorem filters_commute_and_keep_order:
  "filter_time_range S (filter_indicators A T) = filter_indicators A (filter_time_range S T) \<and>
   subseq (filter_indicators A T) T \<and>
   list_all2 (\<lambda>x y. fst x = fst y \<and> subseq (snd x) (snd y)) (filter_time_range S T) T"
  using filter_indicators_time_range_commute [of S A T] filter_time_range_rows [of S T]
  by (simp add: filter_indicators_def)

theorem filters_commute_and_keep_order_witness:
  "filter_time_range (Some [''2021'']) (filter_indicators (Some [''CPI'']) decoded_scenario) =
     [(JStr ''CPI'', [\<lparr>time = JStr ''2021'', geo = ''0'', unit = ''0'', val = JNum 7\<rparr>])] \<and>
   filter_indicators (Some [''CPI'']) (filter_time_range (Some [''2021'']) decoded_scenario) =
     [(JStr ''CPI'', [\<lparr>time = JStr ''2021'', geo = ''0'', unit = ''0'', val = JNum 7\<rparr>])]"
proof -
  have "filter_time_range (Some [''2021'']) (filter_indicators (Some [''CPI'']) decoded_scenario) =
     [(JStr ''CPI'', [\<lparr>time = JStr ''2021'', geo = ''0'', unit = ''0'', val = JNum 7\<rparr>])]"
    by (simp add: filter_time_range_def filter_indicators_def given_def py_in_def py_eq_def
        num_of_def decoded_scenario_def)
  then show ?thesis
    using filters_commute_and_keep_order [of "Some [''2021'']" "Some [''CPI'']" decoded_scenario]
    by simp
qed

section \<open>The response cache\<close>

lemma truthy_payload: "truthy (payload tls nls gls uls vals)"
  by (simp add: truthy_def payload_def)

lemma get_dataset_hit:
  assumes "files w cache_file = Some (Json cache_data)"
    and "getitem cache_data ''timestamp'' = Inr ts" and "num_of ts = Some stored_at"
    and "getitem cache_data ''data'' = Inr stored" and "truthy stored"
    and "clock w - stored_at < 3600"
  shows "get_dataset net dataset_id params format_type True cache_file w = (Inr stored, w)"
  using assms by (simp add: get_dataset_def load_cache_def)

lemma load_cache_stale:
  assumes "files w cache_file = Some (Json cache_data)"
    and "getitem cache_data ''timestamp'' = Inr ts" and "num_of ts = Some stored_at"
    and "\<not> clock w - stored_at < timeout"
  shows "load_cache cache_file timeout w = Inr JNull"
  using assms by (simp add: load_cache_def)

lemma get_dataset_fetch:
  assumes "cache \<longrightarrow> load_cache cache_file 3600 w = Inr cached \<and> \<not> truthy cached"
    and "dataset_url format_type dataset_id = Inr url"
    and "net url params = (Inr fetched, duration)" and "truthy fetched"
  shows "get_dataset net dataset_id params format_type cache cache_file w =
     (Inr fetched,
      \<lparr>files = (if cache then (files w)(cache_file \<mapsto>
                   Json (JObj [(''data'', fetched), (''timestamp'', JNum (clock w + duration))]))
                else files w),
       clock = clock w + duration, requests = requests w @ [url]\<rparr>)"
  using assms
  by (cases cache) (simp_all add: get_dataset_def make_request_def cache_response_def truthy_def)

lemma cache_entry_parts:
  "getitem (JObj [(''data'', data), (''timestamp'', JNum t)]) ''timestamp'' = Inr (JNum t)"
  "getitem (JObj [(''data'', data), (''timestamp'', JNum t)]) ''data'' = Inr data"
  "num_of (JNum t) = Some t"
  by (simp_all add: getitem_def num_of_def)

lemma gdp_url: "dataset_url ''json'' ''nama_10_gdp'' = Inr (BASE_URL_JSON @ ''nama_10_gdp'')"
  by (simp add: dataset_url_def)

lemma requests_make_request:
  "requests (snd (make_request net url params w)) = requests w @ [url]"
  by (simp add: make_request_def Let_def split: prod.splits sum.splits)

lemma files_make_request:
  "files (snd (make_request net url params w)) = files w"
  by (simp add: make_request_def Let_def split: prod.splits sum.splits)

lemma make_request_failed:
  "isl (fst (net url params)) \<Longrightarrow> fst (make_request net url params w) = JNull"
  by (cases "net url params") (auto simp: make_request_def Let_def split: sum.splits)

lemma load_cache_errors:
  "load_cache cache_file timeout w = Inl e \<Longrightarrow> e \<noteq> HTTPError \<and> e \<noteq> Timeout"
  by (auto simp: load_cache_def getitem_def
      split: option.splits file_content.splits json.splits sum.splits if_splits)

text \<open>
  Claim C4. With the cache enabled and a stored entry for the cache file: if the entry's
  age, the clock minus its timestamp, is less than the timeout of 3600 seconds and it
  holds a fetched payload (a non-empty one, the only kind \<^verbatim>\<open>get_dataset\<close> stores), the
  call returns that payload and leaves the world as it is, so no request is made. If the
  age is at least the timeout, one request is made; its successful result is returned
  and stored as the new entry with the time read after the request.
\<close>

theorem cache_hit_and_refresh:
  assumes "files w cache_file = Some (Json cache_data)"
    and "getitem cache_data ''timestamp'' = Inr ts" and "num_of ts = Some stored_at"
  shows "(clock w - stored_at < 3600 \<and> getitem cache_data ''data'' = Inr stored \<and> truthy stored \<longrightarrow>
            get_dataset net dataset_id params format_type True cache_file w = (Inr stored, w)) \<and>
         (\<not> clock w - stored_at < 3600 \<and> dataset_url format_type dataset_id = Inr url \<and>
          net url params = (Inr fetched, duration) \<and> truthy fetched \<longrightarrow>
            get_dataset net dataset_id params format_type True cache_file w =
              (Inr fetched,
               \<lparr>files = (files w)(cache_file \<mapsto>
                   Json (JObj [(''data'', fetched), (''timestamp'', JNum (clock w + duration))])),
                clock = clock w + duration, requests = requests w @ [url]\<rparr>))"
proof (intro conjI impI)
  assume "clock w - stored_at < 3600 \<and> getitem cache_data ''data'' = Inr stored \<and> truthy stored"
  then have "getitem cache_data ''data'' = Inr stored" "truthy stored" "clock w - stored_at < 3600"
    by blast+
  with assms show "get_dataset net dataset_id params format_type True cache_file w = (Inr stored, w)"
    by (rule get_dataset_hit)
next
  assume a: "\<not> clock w - stored_at < 3600 \<and> dataset_url format_type dataset_id = Inr url \<and>
          net url params = (Inr fetched, duration) \<and> truthy fetched"
  then have "\<not> clock w - stored_at < 3600" by blast
  with assms have "load_cache cache_file 3600 w = Inr JNull"
    by (rule load_cache_stale)
  then have "True \<longrightarrow> load_cache cache_file 3600 w = Inr JNull \<and> \<not> truthy JNull"
    by (simp add: truthy_def)
  from get_dataset_fetch [OF this, of format_type dataset_id url net params fetched duration] a
  show "get_dataset net dataset_id params format_type True cache_file w =
              (Inr fetched,
               \<lparr>files = (files w)(cache_file \<mapsto>
                   Json (JObj [(''data'', fetched), (''timestamp'', JNum (clock w + duration))])),
                clock = clock w + duration, requests = requests w @ [url]\<rparr>)"
    by simp
qed

theorem cache_hit_and_refresh_witness:
  "get_dataset net_down ''nama_10_gdp'' () ''json'' True ''gdp_cache.json''
      (world_at 2000 (Some (cache_entry stored_payload 1000))) =
     (Inr stored_payload, world_at 2000 (Some (cache_entry stored_payload 1000))) \<and>
   get_dataset net_ok ''nama_10_gdp'' () ''json'' True ''gdp_cache.json''
      (world_at 5000 (Some (cache_entry stored_payload 1000))) =
     (Inr fetched_payload,
      \<lparr>files = (files (world_at 5000 (Some (cache_entry stored_payload 1000))))
                 (''gdp_cache.json'' \<mapsto> cache_entry fetched_payload 5002),
       clock = 5002, requests = [BASE_URL_JSON @ ''nama_10_gdp'']\<rparr>)"
proof -
  let ?e = "JObj [(''data'', stored_payload), (''timestamp'', JNum 1000)]"
  have f: "files (world_at now (Some (cache_entry stored_payload 1000))) ''gdp_cache.json'' = Some (Json ?e)"
    for now by (simp add: world_at_def cache_entry_def)
  have c: "clock (world_at now e) = now" "requests (world_at now e) = []" for now e
    by (simp_all add: world_at_def)
  have t: "truthy stored_payload" "truthy fetched_payload"
    by (simp_all add: stored_payload_def fetched_payload_def truthy_payload)
  have n: "net_ok (BASE_URL_JSON @ ''nama_10_gdp'') () = (Inr fetched_payload, 2)"
    by (simp add: net_ok_def)
  note hit = cache_hit_and_refresh [where w = "world_at 2000 (Some (cache_entry stored_payload 1000))"
      and cache_file = "''gdp_cache.json''" and stored = stored_payload and net = net_down
      and dataset_id = "''nama_10_gdp''" and params = "()" and format_type = "''json''",
      OF f cache_entry_parts(1) cache_entry_parts(3), THEN conjunct1, rule_format]
  note refresh = cache_hit_and_refresh [where w = "world_at 5000 (Some (cache_entry stored_payload 1000))"
      and cache_file = "''gdp_cache.json''" and net = net_ok
      and dataset_id = "''nama_10_gdp''" and params = "()" and format_type = "''json''"
      and url = "BASE_URL_JSON @ ''nama_10_gdp''" and fetched = fetched_payload and duration = 2,
      OF f cache_entry_parts(1) cache_entry_parts(3), THEN conjunct2, rule_format]
  have a: "get_dataset net_down ''nama_10_gdp'' () ''json'' True ''gdp_cache.json''
      (world_at 2000 (Some (cache_entry stored_payload 1000))) =
     (Inr stored_payload, world_at 2000 (Some (cache_entry stored_payload 1000)))"
    by (rule hit) (simp add: c t cache_entry_parts)
  have b: "get_dataset net_ok ''nama_10_gdp'' () ''json'' True ''gdp_cache.json''
      (world_at 5000 (Some (cache_entry stored_payload 1000))) =
     (Inr fetched_payload,
      \<lparr>files = (files (world_at 5000 (Some (cache_entry stored_payload 1000))))
                 (''gdp_cache.json'' \<mapsto> cache_entry fetched_payload 5002),
       clock = 5002, requests = [BASE_URL_JSON @ ''nama_10_gdp'']\<rparr>)"
    using refresh by (simp add: c t n gdp_url cache_entry_def)
  show ?thesis using a b by simp
qed

text \<open>
  Claim C5, at cache files that cannot be loaded. \<^verbatim>\<open>_load_cache\<close> returns \<^verbatim>\<open>None\<close> for a
  file that does not exist, and then the dataset is fetched; but for a file that is not
  JSON, a file that is not text, or a JSON dictionary without \<^verbatim>\<open>'timestamp'\<close>,
  \<^verbatim>\<open>get_dataset\<close> raises before any request, although the network would have answered.
\<close>

theorem cache_corrupt_file_raises:
  "load_cache ''gdp_cache.json'' 3600 (world_at 2000 None) = Inr JNull \<and>
   fst (get_dataset net_ok ''nama_10_gdp'' () ''json'' True ''gdp_cache.json'' (world_at 2000 None)) =
     Inr fetched_payload \<and>
   get_dataset net_ok ''nama_10_gdp'' () ''json'' True ''gdp_cache.json'' (world_at 2000 (Some NotJson)) =
     (Inl JSONDecodeError, world_at 2000 (Some NotJson)) \<and>
   get_dataset net_ok ''nama_10_gdp'' () ''json'' True ''gdp_cache.json'' (world_at 2000 (Some NotUnicode)) =
     (Inl UnicodeDecodeError, world_at 2000 (Some NotUnicode)) \<and>
   get_dataset net_ok ''nama_10_gdp'' () ''json'' True ''gdp_cache.json''
     (world_at 2000 (Some (Json (JObj [(''data'', stored_payload)])))) =
     (Inl (KeyError ''timestamp''), world_at 2000 (Some (Json (JObj [(''data'', stored_payload)]))))"
  by (simp add: get_dataset_def load_cache_def getitem_def world_at_def dataset_url_def
      make_request_def net_ok_def truthy_def fetched_payload_def payload_def)

text \<open>
  Claim C7. When every request fails (whatever exception the request raises),
  \<^verbatim>\<open>get_dataset\<close> leaves every file as it is, so a stale entry is neither overwritten
  nor deleted; whenever it made a request it returns \<^verbatim>\<open>None\<close>, which is what it returns
  with the cache disabled or without a usable entry; and it never raises
  \<^verbatim>\<open>HTTPError\<close> or \<^verbatim>\<open>Timeout\<close>.
\<close>

theorem fetch_failure_keeps_cache:
  assumes "\<And>url. isl (fst (net url params))"
  shows "files (snd (get_dataset net dataset_id params format_type cache cache_file w)) = files w \<and>
         (requests (snd (get_dataset net dataset_id params format_type cache cache_file w)) \<noteq> requests w
            \<longrightarrow> fst (get_dataset net dataset_id params format_type cache cache_file w) = Inr JNull) \<and>
         ((cache \<longrightarrow> load_cache cache_file 3600 w = Inr cached \<and> \<not> truthy cached) \<and>
          dataset_url format_type dataset_id = Inr url
            \<longrightarrow> fst (get_dataset net dataset_id params format_type cache cache_file w) = Inr JNull \<and>
                requests (snd (get_dataset net dataset_id params format_type cache cache_file w)) =
                  requests w @ [url]) \<and>
         fst (get_dataset net dataset_id params format_type cache cache_file w) \<noteq> Inl HTTPError \<and>
         fst (get_dataset net dataset_id params format_type cache cache_file w) \<noteq> Inl Timeout"
proof -
  let ?R = "get_dataset net dataset_id params format_type cache cache_file w"
  have failed: "fst (make_request net u params w) = JNull" for u
    using assms by (rule make_request_failed)
  have none: "?R = (Inr JNull, snd (make_request net u params w))"
    if "cache \<longrightarrow> load_cache cache_file 3600 w = Inr c \<and> \<not> truthy c"
      and "dataset_url format_type dataset_id = Inr u" for c u
    using that failed [of u]
    by (cases cache; cases "make_request net u params w")
       (auto simp: get_dataset_def truthy_def)
  have shape: "?R = (fst ?R, w) \<or> (\<exists>u. ?R = (Inr JNull, snd (make_request net u params w)))"
  proof (cases "dataset_url format_type dataset_id")
    case (Inl e)
    then show ?thesis
      by (auto simp: get_dataset_def split: sum.splits)
  next
    case (Inr u)
    show ?thesis
    proof (cases "cache \<longrightarrow> (\<exists>c. load_cache cache_file 3600 w = Inr c \<and> \<not> truthy c)")
      case True
      then obtain c where "cache \<longrightarrow> load_cache cache_file 3600 w = Inr c \<and> \<not> truthy c" by blast
      then show ?thesis using none [OF _ Inr] by blast
    next
      case False
      then show ?thesis
        by (auto simp: get_dataset_def split: sum.splits)
    qed
  qed
  have files: "files (snd ?R) = files w"
    using shape files_make_request [of net _ params w] by (metis snd_conv)
  have req: "fst ?R = Inr JNull" if "requests (snd ?R) \<noteq> requests w"
    using shape that by (metis fst_conv snd_conv)
  have miss: "fst ?R = Inr JNull \<and> requests (snd ?R) = requests w @ [url]"
    if "(cache \<longrightarrow> load_cache cache_file 3600 w = Inr cached \<and> \<not> truthy cached) \<and>
          dataset_url format_type dataset_id = Inr url"
    using that none [of cached url] requests_make_request [of net url params w] by simp
  have err: "fst ?R \<noteq> Inl HTTPError \<and> fst ?R \<noteq> Inl Timeout"
  proof (cases "\<exists>u. ?R = (Inr JNull, snd (make_request net u params w))")
    case True
    then show ?thesis by auto
  next
    case False
    then show ?thesis
      using load_cache_errors [of cache_file 3600 w]
      by (auto simp: get_dataset_def dataset_url_def split: sum.splits if_splits prod.splits)
  qed
  show ?thesis using files req miss err by blast
qed

theorem fetch_failure_keeps_cache_witness:
  "isl (fst (net_down (BASE_URL_JSON @ ''nama_10_gdp'') ())) \<and>
   files (snd (get_dataset net_down ''nama_10_gdp'' () ''json'' True ''gdp_cache.json''
      (world_at 5000 (Some (cache_entry stored_payload 1000))))) ''gdp_cache.json'' =
     Some (cache_entry stored_payload 1000) \<and>
   fst (get_dataset net_down ''nama_10_gdp'' () ''json'' True ''gdp_cache.json''
      (world_at 5000 (Some (cache_entry stored_payload 1000)))) = Inr JNull \<and>
   requests (snd (get_dataset net_down ''nama_10_gdp'' () ''json'' True ''gdp_cache.json''
      (world_at 5000 (Some (cache_entry stored_payload 1000))))) = [BASE_URL_JSON @ ''nama_10_gdp'']"
proof -
  let ?w = "world_at 5000 (Some (cache_entry stored_payload 1000))"
  have d: "isl (fst (net_down url ()))" for url by (simp add: net_down_def)
  have l: "True \<longrightarrow> load_cache ''gdp_cache.json'' 3600 ?w = Inr JNull \<and> \<not> truthy JNull"
    by (simp add: load_cache_def world_at_def cache_entry_def getitem_def num_of_def truthy_def)
  note t = fetch_failure_keeps_cache [where net = net_down and params = "()" and w = ?w
      and cache = True and cache_file = "''gdp_cache.json''" and dataset_id = "''nama_10_gdp''"
      and format_type = "''json''" and cached = JNull and url = "BASE_URL_JSON @ ''nama_10_gdp''",
      OF d]
  have f: "files ?w ''gdp_cache.json'' = Some (cache_entry stored_payload 1000)" "requests ?w = []"
    by (simp_all add: world_at_def)
  show ?thesis using t l gdp_url d f by simp
qed

end
